theory Spec2Isabelle
  imports Main
begin

section \<open>The azuread_custom_role table: data model\<close>

text \<open>
  The table lives in \<^verbatim>\<open>src/azuread/table_azuread_custom_role.go\<close>; a second copy of the
  same file is \<^verbatim>\<open>src/unnamed/part_000\<close>. The two copies share the transform functions and
  the loops; they differ in how \<^verbatim>\<open>listAdCustomRoles\<close> and \<^verbatim>\<open>getMembersFromId\<close> treat a failed
  fetch of the role assignments, and in the texts they log. Definitions of the second copy
  carry the suffix \<^verbatim>\<open>_part000\<close>; a definition without a suffix that is not marked otherwise
  is the same text in both copies.
\<close>

subsection \<open>Go values\<close>

text \<open>
  A Go slice is \<^verbatim>\<open>nil\<close> or holds elements: \<open>None\<close> is the nil slice, \<open>Some []\<close> the
  empty slice \<^verbatim>\<open>[]T{}\<close>. Ranging over a nil slice runs no iteration; \<^verbatim>\<open>append\<close> to a nil
  slice allocates.
\<close>

type_synonym 'a slice = "'a list option"

definition elems :: "'a slice \<Rightarrow> 'a list" where
  "elems xs = (case xs of None \<Rightarrow> [] | Some ys \<Rightarrow> ys)"

definition append_slice :: "'a slice \<Rightarrow> 'a \<Rightarrow> 'a slice" where
  "append_slice xs x = Some (elems xs @ [x])"

text \<open>
  A function either returns or panics. Dereferencing a nil pointer (\<^verbatim>\<open>*p\<close> with \<^verbatim>\<open>p == nil\<close>),
  calling a method on a nil interface and a failed type assertion panic.
\<close>

datatype 'a res = Panic | Return 'a

text \<open>The vendor SDK's error: a code and a message.\<close>

datatype error = Error (Code: string) (Message: string)

subsection \<open>SDK objects\<close>

text \<open>
  The getters of the Graph SDK models return pointers (\<open>None\<close> is nil) and slices.
  The record fields are named after the getters the code calls.
\<close>

record UnifiedRolePermission =
  GetAllowedResourceActions :: "string slice"
  GetExcludedResourceActions :: "string slice"
  GetCondition :: "string option"

record UnifiedRoleDefinition =
  GetId :: "string option"
  GetDisplayName :: "string option"
  GetDescription :: "string option"
  GetTemplateId :: "string option"
  GetIsBuiltIn :: "bool option"
  GetRolePermissions :: "UnifiedRolePermission slice"

record UnifiedRoleAssignment =
  GetRoleDefinitionId :: "string option"
  GetPrincipalId :: "string option"

text \<open>\<^verbatim>\<open>type RoleDefinition struct { role ...; members []string }\<close>\<close>

record RoleDefinition =
  role :: UnifiedRoleDefinition
  members :: "string slice"

subsection \<open>The world outside the table\<close>

text \<open>
  The Graph client, the plugin host and \<^verbatim>\<open>getErrorObject\<close> are not part of the two source
  files. Each external call is an oracle indexed by the number of earlier calls of the same
  kind, so that every sequence of answers is covered: the \<open>k\<close>-th \<^verbatim>\<open>GetGraphClient\<close> answers
  \<open>clientResult env k\<close> (\<open>None\<close>: a client and no error), the \<open>k\<close>-th
  \<^verbatim>\<open>RoleAssignments().Get\<close> answers \<open>roleAssignmentsResult env k\<close>, and so on. A failed
  SDK call answers \<open>Inl err\<close>, and its response is then nil; a successful one answers
  \<open>Inr\<close> of what \<^verbatim>\<open>GetValue()\<close> of its response returns, a list of objects (a successful
  call with a nil response or with a nil element is not modelled).
\<close>

record env =
  clientResult :: "nat \<Rightarrow> error option"
  roleDefinitionsResult :: "nat \<Rightarrow> error + UnifiedRoleDefinition list"
  roleAssignmentsResult :: "nat \<Rightarrow> error + UnifiedRoleAssignment list"
  roleDefinitionByIdResult :: "nat \<Rightarrow> string \<Rightarrow> error + UnifiedRoleDefinition"
  rowsRemainingResult :: "nat \<Rightarrow> int"
  getErrorObject :: "error \<Rightarrow> error"

text \<open>
  What an invocation does to the outside: the lines it logs, the rows it hands to
  \<^verbatim>\<open>d.StreamListItem\<close>, and how many calls of each kind it has made.
\<close>

record state =
  logged :: "(string \<times> string \<times> error) list"
  streamed :: "RoleDefinition list"
  clientCalls :: nat
  definitionsCalls :: nat
  assignmentsCalls :: nat
  roleByIdCalls :: nat
  rowsRemainingCalls :: nat

definition init_state :: state where
  "init_state = \<lparr>logged = [], streamed = [], clientCalls = 0, definitionsCalls = 0,
     assignmentsCalls = 0, roleByIdCalls = 0, rowsRemainingCalls = 0\<rparr>"

definition GetGraphClient :: "env \<Rightarrow> state \<Rightarrow> error option \<times> state" where
  "GetGraphClient env s = (clientResult env (clientCalls s), s\<lparr>clientCalls := Suc (clientCalls s)\<rparr>)"

definition RoleDefinitionsGet :: "env \<Rightarrow> state \<Rightarrow> (error + UnifiedRoleDefinition list) \<times> state" where
  "RoleDefinitionsGet env s =
     (roleDefinitionsResult env (definitionsCalls s), s\<lparr>definitionsCalls := Suc (definitionsCalls s)\<rparr>)"

definition RoleAssignmentsGet :: "env \<Rightarrow> state \<Rightarrow> (error + UnifiedRoleAssignment list) \<times> state" where
  "RoleAssignmentsGet env s =
     (roleAssignmentsResult env (assignmentsCalls s), s\<lparr>assignmentsCalls := Suc (assignmentsCalls s)\<rparr>)"

definition ByUnifiedRoleDefinitionIdGet ::
  "env \<Rightarrow> string \<Rightarrow> state \<Rightarrow> (error + UnifiedRoleDefinition) \<times> state" where
  "ByUnifiedRoleDefinitionIdGet env rid s =
     (roleDefinitionByIdResult env (roleByIdCalls s) rid, s\<lparr>roleByIdCalls := Suc (roleByIdCalls s)\<rparr>)"

definition RowsRemaining :: "env \<Rightarrow> state \<Rightarrow> int \<times> state" where
  "RowsRemaining env s =
     (rowsRemainingResult env (rowsRemainingCalls s), s\<lparr>rowsRemainingCalls := Suc (rowsRemainingCalls s)\<rparr>)"

definition StreamListItem :: "RoleDefinition \<Rightarrow> state \<Rightarrow> state" where
  "StreamListItem item s = s\<lparr>streamed := streamed s @ [item]\<rparr>"

definition LoggerError :: "string \<Rightarrow> string \<Rightarrow> error \<Rightarrow> state \<Rightarrow> state" where
  "LoggerError msg key err s = s\<lparr>logged := logged s @ [(msg, key, err)]\<rparr>"

section \<open>The helper getMembersFromId\<close>

text \<open>
  The inner loop \<^verbatim>\<open>for _, id := range member_ids { if id == principalId { found = true } }\<close>,
  started with \<^verbatim>\<open>found := false\<close>.
\<close>

fun scan_found :: "string list \<Rightarrow> string \<Rightarrow> bool \<Rightarrow> bool" where
  "scan_found [] v found = found"
| "scan_found (i # rest) v found = scan_found rest v (if i = v then True else found)"

text \<open>
  The loop over \<^verbatim>\<open>assignments.GetValue()\<close>. Both pointers are dereferenced at the top of
  every iteration, before the comparison with \<^verbatim>\<open>id\<close>.
\<close>

fun members_loop ::
  "UnifiedRoleAssignment list \<Rightarrow> string \<Rightarrow> string slice \<Rightarrow> string slice res" where
  "members_loop [] rid member_ids = Return member_ids"
| "members_loop (assignment # rest) rid member_ids =
     (case GetRoleDefinitionId assignment of
        None \<Rightarrow> Panic
      | Some newId \<Rightarrow>
          (case GetPrincipalId assignment of
             None \<Rightarrow> Panic
           | Some principalId \<Rightarrow>
               if newId = rid then
                 (if \<not> scan_found (elems member_ids) principalId False
                  then members_loop rest rid (append_slice member_ids principalId)
                  else members_loop rest rid member_ids)
               else members_loop rest rid member_ids))"

text \<open>
  \<^verbatim>\<open>getMembersFromId\<close> of \<^verbatim>\<open>src/azuread/table_azuread_custom_role.go\<close>. The branch
  \<^verbatim>\<open>if err != nil { //todo" fix }\<close> is empty: after a failed fetch the code goes on to
  \<^verbatim>\<open>assignments.GetValue()\<close> on the nil response, which panics.
\<close>

definition getMembersFromId ::
  "env \<Rightarrow> string \<Rightarrow> state \<Rightarrow> (string slice \<times> error option) res \<times> state" where
  "getMembersFromId env rid s =
     (case GetGraphClient env s of
        (Some err, s1) \<Rightarrow>
          (Return (None, Some err),
           LoggerError ''azuread_custom_role.listAdCustomRoles'' ''connection_error'' err s1)
      | (None, s1) \<Rightarrow>
          (case RoleAssignmentsGet env s1 of
             (Inl err, s2) \<Rightarrow> (Panic, s2)
           | (Inr assignments, s2) \<Rightarrow>
               (case members_loop assignments rid None of
                  Panic \<Rightarrow> (Panic, s2)
                | Return member_ids \<Rightarrow> (Return (member_ids, None), s2))))"

text \<open>
  \<^verbatim>\<open>getMembersFromId\<close> of \<^verbatim>\<open>src/unnamed/part_000\<close>: the failed fetch is logged and
  returned.
\<close>

definition getMembersFromId_part000 ::
  "env \<Rightarrow> string \<Rightarrow> state \<Rightarrow> (string slice \<times> error option) res \<times> state" where
  "getMembersFromId_part000 env rid s =
     (case GetGraphClient env s of
        (Some err, s1) \<Rightarrow>
          (Return (None, Some err), LoggerError ''azuread_custom_role'' ''connection_error'' err s1)
      | (None, s1) \<Rightarrow>
          (case RoleAssignmentsGet env s1 of
             (Inl err, s2) \<Rightarrow>
               (let errObj = getErrorObject env err in
                (Return (None, Some errObj),
                 LoggerError ''azuread_custom_role'' ''list_custom_role_error'' errObj s2))
           | (Inr assignments, s2) \<Rightarrow>
               (case members_loop assignments rid None of
                  Panic \<Rightarrow> (Panic, s2)
                | Return member_ids \<Rightarrow> (Return (member_ids, None), s2))))"

section \<open>The list function listAdCustomRoles\<close>

text \<open>
  The inner loop of the deduplication, \<^verbatim>\<open>for _, id := range ids { if id ==
  *assignment.GetRoleDefinitionId() { found = true } }\<close>: the pointer is dereferenced in every
  iteration, so only when \<^verbatim>\<open>ids\<close> is not empty.
\<close>

fun scan_ids :: "string list \<Rightarrow> string option \<Rightarrow> bool \<Rightarrow> bool res" where
  "scan_ids [] p found = Return found"
| "scan_ids (i # rest) p found =
     (case p of
        None \<Rightarrow> Panic
      | Some v \<Rightarrow> scan_ids rest p (if i = v then True else found))"

text \<open>The loop over \<^verbatim>\<open>roleAssignments.GetValue()\<close> that builds \<^verbatim>\<open>ids\<close>.\<close>

fun collect_ids :: "UnifiedRoleAssignment list \<Rightarrow> string slice \<Rightarrow> string slice res" where
  "collect_ids [] ids = Return ids"
| "collect_ids (assignment # rest) ids =
     (case scan_ids (elems ids) (GetRoleDefinitionId assignment) False of
        Panic \<Rightarrow> Panic
      | Return found \<Rightarrow>
          if \<not> found then
            (case GetRoleDefinitionId assignment of
               None \<Rightarrow> Panic
             | Some v \<Rightarrow> collect_ids rest (append_slice ids v))
          else collect_ids rest ids)"

text \<open>
  The loop \<^verbatim>\<open>for _, id := range ids\<close> inside the loop over the role definitions, in
  \<^verbatim>\<open>src/azuread/table_azuread_custom_role.go\<close>: the error of \<^verbatim>\<open>getMembersFromId\<close> is dropped
  (\<^verbatim>\<open>//todo: add error log\<close>) and the row is streamed with the members it returned.
\<close>

fun stream_matches :: "env \<Rightarrow> UnifiedRoleDefinition \<Rightarrow> string list \<Rightarrow> state \<Rightarrow> unit res \<times> state" where
  "stream_matches env customRole [] s = (Return (), s)"
| "stream_matches env customRole (i # rest) s =
     (case GetTemplateId customRole of
        None \<Rightarrow> (Panic, s)
      | Some t \<Rightarrow>
          if i = t then
            (case getMembersFromId env i s of
               (Panic, s1) \<Rightarrow> (Panic, s1)
             | (Return (member_ids, err), s1) \<Rightarrow>
                 stream_matches env customRole rest
                   (StreamListItem \<lparr>role = customRole, members = member_ids\<rparr> s1))
          else stream_matches env customRole rest s)"

text \<open>
  The loop over \<^verbatim>\<open>result.GetValue()\<close>, with the check of \<^verbatim>\<open>d.RowsRemaining(ctx)\<close> at the
  end of every iteration.
\<close>

fun roles_loop ::
  "env \<Rightarrow> UnifiedRoleDefinition list \<Rightarrow> string list \<Rightarrow> state
     \<Rightarrow> (RoleDefinition option \<times> error option) res \<times> state" where
  "roles_loop env [] ids s = (Return (None, None), s)"
| "roles_loop env (customRole # rest) ids s =
     (case GetIsBuiltIn customRole of
        None \<Rightarrow> (Panic, s)
      | Some builtIn \<Rightarrow>
          (case (if \<not> builtIn then stream_matches env customRole ids s else (Return (), s)) of
             (Panic, s1) \<Rightarrow> (Panic, s1)
           | (Return u, s1) \<Rightarrow>
               (case RowsRemaining env s1 of
                  (n, s2) \<Rightarrow>
                    if n = 0 then (Return (None, None), s2)
                    else roles_loop env rest ids s2)))"

definition listAdCustomRoles ::
  "env \<Rightarrow> state \<Rightarrow> (RoleDefinition option \<times> error option) res \<times> state" where
  "listAdCustomRoles env s =
     (case GetGraphClient env s of
        (Some err, s1) \<Rightarrow>
          (Return (None, Some err),
           LoggerError ''azuread_custom_role.listAdCustomRoles'' ''connection_error'' err s1)
      | (None, s1) \<Rightarrow>
          (case RoleDefinitionsGet env s1 of
             (Inl err, s2) \<Rightarrow>
               (let errObj = getErrorObject env err in
                (Return (None, Some errObj),
                 LoggerError ''listAdCustomRoles'' ''list_custom_role_error'' errObj s2))
           | (Inr result, s2) \<Rightarrow>
               (case RoleAssignmentsGet env s2 of
                  (Inl err, s3) \<Rightarrow>
                    (let errObj = getErrorObject env err in
                     (Return (None, Some errObj),
                      LoggerError ''listAdCustomRoles'' ''list_custom_role_error'' errObj s3))
                | (Inr roleAssignments, s3) \<Rightarrow>
                    (case collect_ids roleAssignments None of
                       Panic \<Rightarrow> (Panic, s3)
                     | Return ids \<Rightarrow> roles_loop env result (elems ids) s3))))"

text \<open>
  The same loops in \<^verbatim>\<open>src/unnamed/part_000\<close>: an error of \<^verbatim>\<open>getMembersFromId\<close> is logged
  and returned from \<^verbatim>\<open>listAdCustomRoles\<close>. \<open>Return (Some e)\<close> of the inner loop is that
  early return; \<open>Return None\<close> is the loop running to its end.
\<close>

fun stream_matches_part000 ::
  "env \<Rightarrow> UnifiedRoleDefinition \<Rightarrow> string list \<Rightarrow> state \<Rightarrow> error option res \<times> state" where
  "stream_matches_part000 env customRole [] s = (Return None, s)"
| "stream_matches_part000 env customRole (i # rest) s =
     (case GetTemplateId customRole of
        None \<Rightarrow> (Panic, s)
      | Some t \<Rightarrow>
          if i = t then
            (case getMembersFromId_part000 env i s of
               (Panic, s1) \<Rightarrow> (Panic, s1)
             | (Return (member_ids, Some err), s1) \<Rightarrow>
                 (let errObj = getErrorObject env err in
                  (Return (Some errObj),
                   LoggerError ''listAdCustomRoles'' ''list_custom_role_error'' errObj s1))
             | (Return (member_ids, None), s1) \<Rightarrow>
                 stream_matches_part000 env customRole rest
                   (StreamListItem \<lparr>role = customRole, members = member_ids\<rparr> s1))
          else stream_matches_part000 env customRole rest s)"

fun roles_loop_part000 ::
  "env \<Rightarrow> UnifiedRoleDefinition list \<Rightarrow> string list \<Rightarrow> state
     \<Rightarrow> (RoleDefinition option \<times> error option) res \<times> state" where
  "roles_loop_part000 env [] ids s = (Return (None, None), s)"
| "roles_loop_part000 env (customRole # rest) ids s =
     (case GetIsBuiltIn customRole of
        None \<Rightarrow> (Panic, s)
      | Some builtIn \<Rightarrow>
          (case (if \<not> builtIn then stream_matches_part000 env customRole ids s
                 else (Return None, s)) of
             (Panic, s1) \<Rightarrow> (Panic, s1)
           | (Return (Some errObj), s1) \<Rightarrow> (Return (None, Some errObj), s1)
           | (Return None, s1) \<Rightarrow>
               (case RowsRemaining env s1 of
                  (n, s2) \<Rightarrow>
                    if n = 0 then (Return (None, None), s2)
                    else roles_loop_part000 env rest ids s2)))"

definition listAdCustomRoles_part000 ::
  "env \<Rightarrow> state \<Rightarrow> (RoleDefinition option \<times> error option) res \<times> state" where
  "listAdCustomRoles_part000 env s =
     (case GetGraphClient env s of
        (Some err, s1) \<Rightarrow>
          (Return (None, Some err),
           LoggerError ''azuread_custom_role.listAdCustomRoles'' ''connection_error'' err s1)
      | (None, s1) \<Rightarrow>
          (case RoleDefinitionsGet env s1 of
             (Inl err, s2) \<Rightarrow>
               (let errObj = getErrorObject env err in
                (Return (None, Some errObj),
                 LoggerError ''listAdCustomRoles'' ''list_custom_role_error'' errObj s2))
           | (Inr result, s2) \<Rightarrow>
               (case RoleAssignmentsGet env s2 of
                  (Inl err, s3) \<Rightarrow>
                    (let errObj = getErrorObject env err in
                     (Return (None, Some errObj),
                      LoggerError ''listAdCustomRoles'' ''list_custom_role_error'' errObj s3))
                | (Inr roleAssignments, s3) \<Rightarrow>
                    (case collect_ids roleAssignments None of
                       Panic \<Rightarrow> (Panic, s3)
                     | Return ids \<Rightarrow> roles_loop_part000 env result (elems ids) s3))))"

section \<open>The hydrate function getAdCustomRole\<close>

text \<open>
  \<^verbatim>\<open>d.EqualsQuals["id"].GetStringValue()\<close>: the lookup of a missing key gives a nil
  \<^verbatim>\<open>*proto.QualValue\<close>, and the generated getter answers the empty string for a nil receiver
  and for a value that is not a string.
\<close>

datatype QualValue = StringQual string | OtherQual

record QueryData =
  EqualsQuals :: "string \<rightharpoonup> QualValue"

definition GetStringValue :: "QualValue option \<Rightarrow> string" where
  "GetStringValue q = (case q of Some (StringQual v) \<Rightarrow> v | _ \<Rightarrow> [])"

text \<open>\<^verbatim>\<open>getAdCustomRole\<close> of \<^verbatim>\<open>src/azuread/table_azuread_custom_role.go\<close>.\<close>

definition getAdCustomRole ::
  "env \<Rightarrow> QueryData \<Rightarrow> state \<Rightarrow> (RoleDefinition option \<times> error option) res \<times> state" where
  "getAdCustomRole env d s =
     (let CustomRoleId = GetStringValue (EqualsQuals d ''id'') in
      if CustomRoleId = [] then (Return (None, None), s)
      else
        (case GetGraphClient env s of
           (Some err, s1) \<Rightarrow>
             (Return (None, Some err),
              LoggerError ''azuread_directory_role.getAdDirectoryRole'' ''connection_error'' err s1)
         | (None, s1) \<Rightarrow>
             (case ByUnifiedRoleDefinitionIdGet env CustomRoleId s1 of
                (Inl err, s2) \<Rightarrow>
                  (let errObj = getErrorObject env err in
                   (Return (None, Some errObj),
                    LoggerError ''getAdDirectoryRole'' ''get_directory_role_error'' errObj s2))
              | (Inr customRole, s2) \<Rightarrow>
                  (case getMembersFromId env CustomRoleId s2 of
                     (Panic, s3) \<Rightarrow> (Panic, s3)
                   | (Return (member_ids, Some err), s3) \<Rightarrow>
                       (let errObj = getErrorObject env err in
                        (Return (None, Some errObj),
                         LoggerError ''getAdCustomRole'' ''get_custom_role_error'' errObj s3))
                   | (Return (member_ids, None), s3) \<Rightarrow>
                       (Return (Some \<lparr>role = customRole, members = member_ids\<rparr>, None), s3)))))"

text \<open>\<^verbatim>\<open>getAdCustomRole\<close> of \<^verbatim>\<open>src/unnamed/part_000\<close>.\<close>

definition getAdCustomRole_part000 ::
  "env \<Rightarrow> QueryData \<Rightarrow> state \<Rightarrow> (RoleDefinition option \<times> error option) res \<times> state" where
  "getAdCustomRole_part000 env d s =
     (let CustomRoleId = GetStringValue (EqualsQuals d ''id'') in
      if CustomRoleId = [] then (Return (None, None), s)
      else
        (case GetGraphClient env s of
           (Some err, s1) \<Rightarrow>
             (Return (None, Some err),
              LoggerError ''azuread_custom_role.getAdCustomRole'' ''connection_error'' err s1)
         | (None, s1) \<Rightarrow>
             (case ByUnifiedRoleDefinitionIdGet env CustomRoleId s1 of
                (Inl err, s2) \<Rightarrow>
                  (let errObj = getErrorObject env err in
                   (Return (None, Some errObj),
                    LoggerError ''getCustomRole'' ''get_custom_error'' errObj s2))
              | (Inr customRole, s2) \<Rightarrow>
                  (case getMembersFromId_part000 env CustomRoleId s2 of
                     (Panic, s3) \<Rightarrow> (Panic, s3)
                   | (Return (member_ids, Some err), s3) \<Rightarrow>
                       (let errObj = getErrorObject env err in
                        (Return (None, Some errObj),
                         LoggerError ''getAdCustomRole'' ''get_custom_role_error'' errObj s3))
                   | (Return (member_ids, None), s3) \<Rightarrow>
                       (Return (Some \<lparr>role = customRole, members = member_ids\<rparr>, None), s3)))))"

section \<open>The transform functions\<close>

text \<open>
  \<^verbatim>\<open>d.HydrateItem\<close> is an \<^verbatim>\<open>interface{}\<close>. The assertion \<^verbatim>\<open>d.HydrateItem.(*RoleDefinition)\<close>
  gives the pointer (which may be nil) when the item is a \<^verbatim>\<open>*RoleDefinition\<close>, and panics on
  anything else, a nil interface included.
\<close>

datatype HydrateItem = RoleDefinitionPtr "RoleDefinition option" | OtherItem

definition assert_RoleDefinition :: "HydrateItem \<Rightarrow> RoleDefinition option res" where
  "assert_RoleDefinition item = (case item of RoleDefinitionPtr p \<Rightarrow> Return p | OtherItem \<Rightarrow> Panic)"

text \<open>What a permission map stores under a key, and what a transform returns.\<close>

datatype map_value = StringSliceValue "string slice" | StringPtrValue "string option"

datatype column_value =
    NilValue
  | StringValue string
  | StringPtr "string option"
  | StringSlice "string slice"
  | MapSlice "(string \<rightharpoonup> map_value) slice"

definition getCustomRoleMembers :: "HydrateItem \<Rightarrow> (column_value \<times> error option) res" where
  "getCustomRoleMembers item =
     (case assert_RoleDefinition item of
        Panic \<Rightarrow> Panic
      | Return None \<Rightarrow> Return (NilValue, None)
      | Return (Some data) \<Rightarrow> Return (StringSlice (members data), None))"

text \<open>The body of the loop over \<^verbatim>\<open>permissionArray\<close>: the map built for one permission.\<close>

definition permission_mapping :: "UnifiedRolePermission \<Rightarrow> (string \<rightharpoonup> map_value)" where
  "permission_mapping per =
     (let mapping = Map.empty;
          allowedResourceActionsArr = GetAllowedResourceActions per;
          mapping =
            (if allowedResourceActionsArr = None
             then mapping(''AllowedResourceActions'' \<mapsto> StringSliceValue (Some []))
             else mapping(''AllowedResourceActions'' \<mapsto> StringSliceValue (GetAllowedResourceActions per)));
          excludedResourceActionsArr = GetExcludedResourceActions per;
          mapping =
            (if excludedResourceActionsArr = None
             then mapping(''ExcludedResourceActions'' \<mapsto> StringSliceValue (Some []))
             else mapping(''ExcludedResourceActions'' \<mapsto> StringSliceValue (GetExcludedResourceActions per)))
      in mapping(''condition'' \<mapsto> StringPtrValue (GetCondition per)))"

fun permissions_loop ::
  "UnifiedRolePermission list \<Rightarrow> (string \<rightharpoonup> map_value) slice \<Rightarrow> (string \<rightharpoonup> map_value) slice" where
  "permissions_loop [] resourceArr = resourceArr"
| "permissions_loop (per # rest) resourceArr =
     permissions_loop rest (append_slice resourceArr (permission_mapping per))"

definition getRolePermissions :: "HydrateItem \<Rightarrow> (column_value \<times> error option) res" where
  "getRolePermissions item =
     (case assert_RoleDefinition item of
        Panic \<Rightarrow> Panic
      | Return None \<Rightarrow> Panic
      | Return (Some data) \<Rightarrow>
          (let permissionArray = GetRolePermissions (role data);
               resourceArr = Some []
           in Return (MapSlice (permissions_loop (elems permissionArray) resourceArr), None)))"

definition getRoleId :: "HydrateItem \<Rightarrow> (column_value \<times> error option) res" where
  "getRoleId item =
     (case assert_RoleDefinition item of
        Panic \<Rightarrow> Panic
      | Return None \<Rightarrow> Panic
      | Return (Some data) \<Rightarrow>
          (case GetId (role data) of
             None \<Rightarrow> Panic
           | Some v \<Rightarrow> Return (StringValue v, None)))"

definition getRoleDescripsion :: "HydrateItem \<Rightarrow> (column_value \<times> error option) res" where
  "getRoleDescripsion item =
     (case assert_RoleDefinition item of
        Panic \<Rightarrow> Panic
      | Return None \<Rightarrow> Panic
      | Return (Some data) \<Rightarrow>
          (case GetDescription (role data) of
             None \<Rightarrow> Return (StringValue ''No Description'', None)
           | Some v \<Rightarrow> Return (StringValue v, None)))"

definition getRoleDisplayName :: "HydrateItem \<Rightarrow> (column_value \<times> error option) res" where
  "getRoleDisplayName item =
     (case assert_RoleDefinition item of
        Panic \<Rightarrow> Panic
      | Return None \<Rightarrow> Panic
      | Return (Some data) \<Rightarrow>
          (case GetDisplayName (role data) of
             None \<Rightarrow> Panic
           | Some v \<Rightarrow> Return (StringValue v, None)))"

definition getRoleTemplateId :: "HydrateItem \<Rightarrow> (column_value \<times> error option) res" where
  "getRoleTemplateId item =
     (case assert_RoleDefinition item of
        Panic \<Rightarrow> Panic
      | Return None \<Rightarrow> Panic
      | Return (Some data) \<Rightarrow>
          (case GetTemplateId (role data) of
             None \<Rightarrow> Panic
           | Some v \<Rightarrow> Return (StringValue v, None)))"

definition getCustomRoleTitle :: "HydrateItem \<Rightarrow> (column_value \<times> error option) res" where
  "getCustomRoleTitle item =
     (case assert_RoleDefinition item of
        Panic \<Rightarrow> Panic
      | Return None \<Rightarrow> Return (NilValue, None)
      | Return (Some data) \<Rightarrow>
          (let title = GetDisplayName (role data);
               title = (if title = None then GetId (role data) else title)
           in Return (StringPtr title, None)))"

section \<open>The table's Get configuration\<close>

text \<open>
  Modelled from the spec: \<^verbatim>\<open>isIgnorableErrorPredicate\<close> is defined in a file of the repository
  that is not among the source files; only its call in \<^verbatim>\<open>tableAzureAdCustomRole\<close> is. The spec
  describes it as an "ignorable error" predicate keyed by string matching on known error
  codes: an error is ignorable when its code is one of the codes the predicate was built from.
\<close>

definition isIgnorableErrorPredicate :: "string list \<Rightarrow> error \<Rightarrow> bool" where
  "isIgnorableErrorPredicate ignoreErrorCodes err = (Code err \<in> set ignoreErrorCodes)"

text \<open>
  The \<^verbatim>\<open>Get\<close> field of the table returned by \<^verbatim>\<open>tableAzureAdCustomRole\<close>: the error predicate
  of its \<^verbatim>\<open>IgnoreConfig\<close> and its key column.
\<close>

record GetConfig =
  ShouldIgnoreErrorFunc :: "error \<Rightarrow> bool"
  KeyColumns :: "string list"

definition tableAzureAdCustomRole_Get :: GetConfig where
  "tableAzureAdCustomRole_Get =
     \<lparr>ShouldIgnoreErrorFunc =
        isIgnorableErrorPredicate [''Request_ResourceNotFound'', ''Invalid object identifier''],
      KeyColumns = [''id'']\<rparr>"

section \<open>Notions the properties are stated with\<close>

text \<open>
  The specification's "distinct values, each exactly once, in order of first occurrence":
  keep the head and drop its later copies. This definition follows the specification's
  words, not the code; the loops above are compared with it.
\<close>

fun first_occurrences :: "'a list \<Rightarrow> 'a list" where
  "first_occurrences [] = []"
| "first_occurrences (x # xs) = x # filter (\<lambda>y. y \<noteq> x) (first_occurrences xs)"

text \<open>
  A role-assignments response whose entries carry both ids (no nil pointer), and a role
  definition that carries its built-in flag and its template id.
\<close>

definition assignments_wellformed :: "UnifiedRoleAssignment list \<Rightarrow> bool" where
  "assignments_wellformed assignments =
     list_all (\<lambda>a. GetRoleDefinitionId a \<noteq> None \<and> GetPrincipalId a \<noteq> None) assignments"




section \<open>Concrete inputs\<close>

text \<open>
  A tenant with five role definitions (\<open>a\<close>, \<open>c\<close>, \<open>d\<close> and \<open>e\<close> custom, \<open>b\<close> built in) and
  four role assignments: template \<open>t1\<close> is assigned to \<open>p1\<close> (twice) and \<open>p3\<close>,
  template \<open>t2\<close> to \<open>p2\<close>, template \<open>t3\<close> to nobody. Every call succeeds; the answers of
  \<^verbatim>\<open>d.RowsRemaining\<close> are a parameter.
\<close>

definition example_assignment :: "string \<Rightarrow> string \<Rightarrow> UnifiedRoleAssignment" where
  "example_assignment r p = \<lparr>GetRoleDefinitionId = Some r, GetPrincipalId = Some p\<rparr>"

definition example_assignments :: "UnifiedRoleAssignment list" where
  "example_assignments =
     [example_assignment ''t1'' ''p1'', example_assignment ''t2'' ''p2'',
      example_assignment ''t1'' ''p3'', example_assignment ''t1'' ''p1'']"

definition example_role :: "string \<Rightarrow> string \<Rightarrow> bool \<Rightarrow> UnifiedRoleDefinition" where
  "example_role i t b =
     \<lparr>GetId = Some i, GetDisplayName = None, GetDescription = None, GetTemplateId = Some t,
      GetIsBuiltIn = Some b, GetRolePermissions = None\<rparr>"

definition example_roles :: "UnifiedRoleDefinition list" where
  "example_roles =
     [example_role ''a'' ''t1'' False, example_role ''b'' ''t2'' True,
      example_role ''c'' ''t3'' False, example_role ''d'' ''t2'' False,
      example_role ''e'' ''t1'' False]"

definition example_env :: "(nat \<Rightarrow> int) \<Rightarrow> env" where
  "example_env rr =
     \<lparr>clientResult = (\<lambda>k. None),
      roleDefinitionsResult = (\<lambda>k. Inr example_roles),
      roleAssignmentsResult = (\<lambda>k. Inr example_assignments),
      roleDefinitionByIdResult = (\<lambda>k rid. Inr (example_role rid ''t1'' False)),
      rowsRemainingResult = rr,
      getErrorObject = (\<lambda>e. e)\<rparr>"

text \<open>
  The same tenant when the service stops answering: the \<open>n\<close>-th fetch of the role
  assignments and every later one fail. \<^verbatim>\<open>getErrorObject\<close> marks the message of the error
  it is given.
\<close>

definition service_error :: error where
  "service_error = Error ''ServiceUnavailable'' ''try again''"

definition failing_env :: "nat \<Rightarrow> env" where
  "failing_env n =
     \<lparr>clientResult = (\<lambda>k. None),
      roleDefinitionsResult = (\<lambda>k. Inr example_roles),
      roleAssignmentsResult = (\<lambda>k. if k < n then Inr example_assignments else Inl service_error),
      roleDefinitionByIdResult = (\<lambda>k rid. Inr (example_role rid ''t1'' False)),
      rowsRemainingResult = (\<lambda>k. 1),
      getErrorObject = (\<lambda>e. Error (Code e) (''request error: '' @ Message e))\<rparr>"

text \<open>A query with the qual \<^verbatim>\<open>id = v\<close>, and hydrate items.\<close>

definition id_query :: "string \<Rightarrow> QueryData" where
  "id_query v = \<lparr>EqualsQuals = [''id'' \<mapsto> StringQual v]\<rparr>"

definition example_item :: "UnifiedRoleDefinition \<Rightarrow> HydrateItem" where
  "example_item r = RoleDefinitionPtr (Some \<lparr>role = r, members = None\<rparr>)"

text \<open>
  A tenant whose Graph answers are all successful, but where the assignment of template
  \<open>t2\<close> comes without a \<^verbatim>\<open>principalId\<close> (a nil pointer); the assignment of template
  \<open>t1\<close> to \<open>p1\<close> is complete.
\<close>

definition nil_principal_assignments :: "UnifiedRoleAssignment list" where
  "nil_principal_assignments =
     [example_assignment ''t1'' ''p1'',
      \<lparr>GetRoleDefinitionId = Some ''t2'', GetPrincipalId = None\<rparr>]"

definition nil_principal_env :: env where
  "nil_principal_env =
     \<lparr>clientResult = (\<lambda>k. None),
      roleDefinitionsResult = (\<lambda>k. Inr example_roles),
      roleAssignmentsResult = (\<lambda>k. Inr nil_principal_assignments),
      roleDefinitionByIdResult = (\<lambda>k rid. Inr (example_role rid ''t1'' False)),
      rowsRemainingResult = (\<lambda>k. 1),
      getErrorObject = (\<lambda>e. e)\<rparr>"

section \<open>Lemmas about the loops\<close>

lemma set_first_occurrences: "set (first_occurrences xs) = set xs"
  by (induction xs) auto

lemma distinct_first_occurrences: "distinct (first_occurrences xs)"
  by (induction xs) (auto simp: set_first_occurrences)

lemma first_occurrences_snoc:
  "first_occurrences (xs @ [x]) =
     (if x \<in> set xs then first_occurrences xs else first_occurrences xs @ [x])"
  by (induction xs) (auto simp: set_first_occurrences)

text \<open>The same list with the library's \<open>remdups\<close>, which keeps last occurrences.\<close>

lemma first_occurrences_remdups: "first_occurrences xs = rev (remdups (rev xs))"
proof (induction xs rule: rev_induct)
  case Nil
  show ?case by simp
next
  case (snoc x xs)
  then show ?case by (simp add: first_occurrences_snoc)
qed

lemma elems_simps: "elems None = []" "elems (Some xs) = xs" "elems (append_slice a x) = elems a @ [x]"
  by (simp_all add: elems_def append_slice_def)

lemma scan_found_eq: "scan_found xs v found = (found \<or> v \<in> set xs)"
  by (induction xs arbitrary: found) auto

lemma scan_ids_Some: "scan_ids xs (Some v) found = Return (found \<or> v \<in> set xs)"
  by (induction xs arbitrary: found) auto

lemma collect_ids_acc:
  "map GetRoleDefinitionId roleAssignments = map Some rids \<Longrightarrow>
   \<exists>ids. collect_ids roleAssignments acc = Return ids \<and>
     elems ids = elems acc @ filter (\<lambda>x. x \<notin> set (elems acc)) (first_occurrences rids)"
proof (induction roleAssignments arbitrary: rids acc)
  case Nil
  then show ?case by simp
next
  case (Cons a rest)
  then obtain r rids' where rids: "rids = r # rids'" and a: "GetRoleDefinitionId a = Some r"
    and rest: "map GetRoleDefinitionId rest = map Some rids'"
    by (cases rids) auto
  let ?T = "first_occurrences rids'"
  show ?case
  proof (cases "r \<in> set (elems acc)")
    case True
    from Cons.IH [OF rest, of acc] obtain ids where
      ids: "collect_ids rest acc = Return ids"
        "elems ids = elems acc @ filter (\<lambda>x. x \<notin> set (elems acc)) ?T"
      by blast
    have f: "filter (\<lambda>x. x \<notin> set (elems acc)) (first_occurrences rids)
             = filter (\<lambda>x. x \<notin> set (elems acc)) ?T"
      using True by (auto simp: rids intro: filter_cong)
    have "collect_ids (a # rest) acc = Return ids"
      using True ids(1) by (simp add: a scan_ids_Some)
    with ids(2) f show ?thesis by simp
  next
    case False
    from Cons.IH [OF rest, of "append_slice acc r"] obtain ids where
      ids: "collect_ids rest (append_slice acc r) = Return ids"
        "elems ids = (elems acc @ [r]) @ filter (\<lambda>x. x \<notin> set (elems acc @ [r])) ?T"
      by (auto simp: elems_simps)
    have f: "filter (\<lambda>x. x \<notin> set (elems acc)) (first_occurrences rids)
             = r # filter (\<lambda>x. x \<notin> set (elems acc @ [r])) ?T"
      using False by (auto simp: rids intro: filter_cong)
    have "collect_ids (a # rest) acc = Return ids"
      using False ids(1) by (simp add: a scan_ids_Some)
    with ids(2) f show ?thesis by simp
  qed
qed

lemma members_loop_acc:
  "map GetRoleDefinitionId assignments = map Some rids \<Longrightarrow>
   map GetPrincipalId assignments = map Some pids \<Longrightarrow>
   \<exists>ms. members_loop assignments rid acc = Return ms \<and>
     elems ms = elems acc @ filter (\<lambda>x. x \<notin> set (elems acc))
       (first_occurrences (map snd (filter (\<lambda>(r, p). r = rid) (zip rids pids))))"
proof (induction assignments arbitrary: rids pids acc)
  case Nil
  then show ?case by simp
next
  case (Cons a rest)
  then obtain r rids' p pids' where rids: "rids = r # rids'" and a: "GetRoleDefinitionId a = Some r"
    and rest: "map GetRoleDefinitionId rest = map Some rids'"
    and pids: "pids = p # pids'" and ap: "GetPrincipalId a = Some p"
    and restp: "map GetPrincipalId rest = map Some pids'"
    by (cases rids; cases pids) auto
  let ?T = "first_occurrences (map snd (filter (\<lambda>(r, p). r = rid) (zip rids' pids')))"
  let ?U = "first_occurrences (map snd (filter (\<lambda>(r, p). r = rid) (zip rids pids)))"
  show ?case
  proof (cases "r = rid")
    case neq: False
    from Cons.IH [OF rest restp, of acc] neq show ?thesis
      by (simp add: rids pids a ap)
  next
    case eq: True
    have U: "?U = p # filter (\<lambda>y. y \<noteq> p) ?T"
      using eq by (simp add: rids pids)
    show ?thesis
    proof (cases "p \<in> set (elems acc)")
      case True
      from Cons.IH [OF rest restp, of acc] obtain ms where
        ms: "members_loop rest rid acc = Return ms"
          "elems ms = elems acc @ filter (\<lambda>x. x \<notin> set (elems acc)) ?T"
        by blast
      have f: "filter (\<lambda>x. x \<notin> set (elems acc)) ?U = filter (\<lambda>x. x \<notin> set (elems acc)) ?T"
        unfolding U using True by (auto intro: filter_cong)
      have "members_loop (a # rest) rid acc = Return ms"
        using True eq ms(1) by (simp add: a ap scan_found_eq)
      with ms(2) f show ?thesis by simp
    next
      case False
      from Cons.IH [OF rest restp, of "append_slice acc p"] obtain ms where
        ms: "members_loop rest rid (append_slice acc p) = Return ms"
          "elems ms = (elems acc @ [p]) @ filter (\<lambda>x. x \<notin> set (elems acc @ [p])) ?T"
        by (auto simp: elems_simps)
      have f: "filter (\<lambda>x. x \<notin> set (elems acc)) ?U
               = p # filter (\<lambda>x. x \<notin> set (elems acc @ [p])) ?T"
        unfolding U using False by (auto intro: filter_cong)
      have "members_loop (a # rest) rid acc = Return ms"
        using False eq ms(1) by (simp add: a ap scan_found_eq)
      with ms(2) f show ?thesis by simp
    qed
  qed
qed


lemma all_Some_map: "list_all (\<lambda>a. f a \<noteq> None) xs \<Longrightarrow> \<exists>ys. map f xs = map Some ys"
proof (induction xs)
  case Nil
  show ?case by simp
next
  case (Cons a xs)
  then obtain ys y where "map f xs = map Some ys" "f a = Some y" by auto
  then have "map f (a # xs) = map Some (y # ys)" by simp
  then show ?case by blast
qed

lemma wellformed_maps:
  assumes "assignments_wellformed assignments"
  shows "\<exists>rids pids. map GetRoleDefinitionId assignments = map Some rids \<and>
           map GetPrincipalId assignments = map Some pids"
proof -
  have "list_all (\<lambda>a. GetRoleDefinitionId a \<noteq> None) assignments"
    and "list_all (\<lambda>a. GetPrincipalId a \<noteq> None) assignments"
    using assms by (simp_all add: assignments_wellformed_def list_all_iff)
  then show ?thesis using all_Some_map by blast
qed

lemma getMembersFromId_fetch:
  assumes "clientResult env (clientCalls s) = None"
    and "roleAssignmentsResult env (assignmentsCalls s) = Inr assignments"
    and "members_loop assignments rid None = Return ms"
  shows "getMembersFromId env rid s =
           (Return (ms, None),
            s\<lparr>clientCalls := Suc (clientCalls s), assignmentsCalls := Suc (assignmentsCalls s)\<rparr>)"
    and "getMembersFromId_part000 env rid s =
           (Return (ms, None),
            s\<lparr>clientCalls := Suc (clientCalls s), assignmentsCalls := Suc (assignmentsCalls s)\<rparr>)"
  using assms
  by (simp_all add: getMembersFromId_def getMembersFromId_part000_def GetGraphClient_def
      RoleAssignmentsGet_def)












lemma map_the_filter:
  "map GetRoleDefinitionId assignments = map Some rids \<Longrightarrow>
   map GetPrincipalId assignments = map Some pids \<Longrightarrow>
   map snd (filter (\<lambda>(r, p). r = rid) (zip rids pids)) =
     map (the \<circ> GetPrincipalId) (filter (\<lambda>a. GetRoleDefinitionId a = Some rid) assignments)"
proof (induction assignments arbitrary: rids pids)
  case Nil
  then show ?case by simp
next
  case (Cons a rest)
  then obtain r rids' p pids' where "rids = r # rids'" "GetRoleDefinitionId a = Some r"
    "map GetRoleDefinitionId rest = map Some rids'"
    "pids = p # pids'" "GetPrincipalId a = Some p"
    "map GetPrincipalId rest = map Some pids'"
    by (cases rids; cases pids) auto
  with Cons.IH [of rids' pids'] show ?case by simp
qed

lemma map_the_Some: "map f xs = map Some ys \<Longrightarrow> map (the \<circ> f) xs = ys"
proof (induction xs arbitrary: ys)
  case Nil
  then show ?case by simp
next
  case (Cons a xs)
  then show ?case by (cases ys) auto
qed

subsection \<open>Facts about the concrete inputs\<close>

lemmas ex_defs = example_env_def example_roles_def example_role_def example_assignments_def
  example_assignment_def init_state_def

lemmas op_defs = GetGraphClient_def RoleDefinitionsGet_def RoleAssignmentsGet_def
  ByUnifiedRoleDefinitionIdGet_def RowsRemaining_def StreamListItem_def LoggerError_def
  elems_def append_slice_def Let_def

lemmas fail_defs = failing_env_def service_error_def example_roles_def example_role_def
  example_assignments_def example_assignment_def init_state_def id_query_def GetStringValue_def




lemma permissions_loop_map:
  "permissions_loop ps (Some acc) = Some (acc @ map permission_mapping ps)"
  by (induction ps arbitrary: acc) (simp_all add: append_slice_def elems_def)

subsection \<open>Failed calls made by the list and the hydrate function themselves\<close>

text \<open>
  In both copies a failed fetch of the role definitions or of the role assignments in
  \<^verbatim>\<open>listAdCustomRoles\<close>, and a failed fetch of the role definition in \<^verbatim>\<open>getAdCustomRole\<close>,
  is logged and returned as the object of \<^verbatim>\<open>getErrorObject\<close>, and no row is streamed.
\<close>

lemma listAdCustomRoles_definitions_fail:
  assumes "clientResult env (clientCalls s) = None"
    and "roleDefinitionsResult env (definitionsCalls s) = Inl err"
  shows "fst (listAdCustomRoles env s) = Return (None, Some (getErrorObject env err))"
    and "streamed (snd (listAdCustomRoles env s)) = streamed s"
    and "logged (snd (listAdCustomRoles env s)) =
           logged s @ [(''listAdCustomRoles'', ''list_custom_role_error'', getErrorObject env err)]"
    and "listAdCustomRoles_part000 env s = listAdCustomRoles env s"
  using assms
  by (simp_all add: listAdCustomRoles_def listAdCustomRoles_part000_def GetGraphClient_def
      RoleDefinitionsGet_def LoggerError_def Let_def)

lemma listAdCustomRoles_assignments_fail:
  assumes "clientResult env (clientCalls s) = None"
    and "roleDefinitionsResult env (definitionsCalls s) = Inr defs"
    and "roleAssignmentsResult env (assignmentsCalls s) = Inl err"
  shows "fst (listAdCustomRoles env s) = Return (None, Some (getErrorObject env err))"
    and "streamed (snd (listAdCustomRoles env s)) = streamed s"
    and "logged (snd (listAdCustomRoles env s)) =
           logged s @ [(''listAdCustomRoles'', ''list_custom_role_error'', getErrorObject env err)]"
    and "listAdCustomRoles_part000 env s = listAdCustomRoles env s"
  using assms
  by (simp_all add: listAdCustomRoles_def listAdCustomRoles_part000_def GetGraphClient_def
      RoleDefinitionsGet_def RoleAssignmentsGet_def LoggerError_def Let_def)

lemma getAdCustomRole_fetch_fails:
  assumes "GetStringValue (EqualsQuals d ''id'') = v" and "v \<noteq> []"
    and "clientResult env (clientCalls s) = None"
    and "roleDefinitionByIdResult env (roleByIdCalls s) v = Inl err"
  shows "fst (getAdCustomRole env d s) = Return (None, Some (getErrorObject env err))"
    and "logged (snd (getAdCustomRole env d s)) =
           logged s @ [(''getAdDirectoryRole'', ''get_directory_role_error'', getErrorObject env err)]"
    and "fst (getAdCustomRole_part000 env d s) = Return (None, Some (getErrorObject env err))"
    and "logged (snd (getAdCustomRole_part000 env d s)) =
           logged s @ [(''getCustomRole'', ''get_custom_error'', getErrorObject env err)]"
  using assms
  by (simp_all add: getAdCustomRole_def getAdCustomRole_part000_def GetGraphClient_def
      ByUnifiedRoleDefinitionIdGet_def LoggerError_def Let_def)


section \<open>The properties\<close>




text \<open>
  C2. A failed Graph call is to be logged and returned as the error made by
  \<^verbatim>\<open>getErrorObject\<close>. In \<^verbatim>\<open>src/azuread/table_azuread_custom_role.go\<close>, \<^verbatim>\<open>getMembersFromId\<close>
  does neither when its fetch of the role assignments fails: it logs nothing and panics, and
  so does \<^verbatim>\<open>getAdCustomRole\<close>, which calls it. The copy \<^verbatim>\<open>src/unnamed/part_000\<close> logs the
  error and returns it.
\<close>

theorem failed_fetch_in_getMembersFromId:
  "roleAssignmentsResult (failing_env 0) 0 = Inl service_error \<and>
   getMembersFromId (failing_env 0) ''t1'' init_state =
     (Panic, init_state\<lparr>clientCalls := 1, assignmentsCalls := 1\<rparr>) \<and>
   logged (snd (getMembersFromId (failing_env 0) ''t1'' init_state)) = [] \<and>
   fst (getAdCustomRole (failing_env 0) (id_query ''a'') init_state) = Panic \<and>
   logged (snd (getAdCustomRole (failing_env 0) (id_query ''a'') init_state)) = [] \<and>
   fst (getMembersFromId_part000 (failing_env 0) ''t1'' init_state) =
     Return (None, Some (getErrorObject (failing_env 0) service_error)) \<and>
   logged (snd (getMembersFromId_part000 (failing_env 0) ''t1'' init_state)) =
     [(''azuread_custom_role'', ''list_custom_role_error'',
       getErrorObject (failing_env 0) service_error)]"
  by (simp add: getMembersFromId_def getMembersFromId_part000_def getAdCustomRole_def
      fail_defs op_defs)

text \<open>
  C3. In \<^verbatim>\<open>listAdCustomRoles\<close>, the list \<^verbatim>\<open>ids\<close> built by the nested loops over the
  role-assignments response holds exactly the distinct \<^verbatim>\<open>roleDefinitionId\<close> values of the
  assignments, each once, in order of first occurrence. The response is one whose
  assignments all carry a \<^verbatim>\<open>roleDefinitionId\<close>.
\<close>

theorem ids_first_occurrences:
  assumes "list_all (\<lambda>a. GetRoleDefinitionId a \<noteq> None) roleAssignments"
  shows "\<exists>ids. collect_ids roleAssignments None = Return ids \<and>
           elems ids = first_occurrences (map (the \<circ> GetRoleDefinitionId) roleAssignments) \<and>
           distinct (elems ids) \<and>
           set (elems ids) = (the \<circ> GetRoleDefinitionId) ` set roleAssignments"
proof -
  from all_Some_map [OF assms] obtain rids where
    rids: "map GetRoleDefinitionId roleAssignments = map Some rids"
    by blast
  from collect_ids_acc [OF rids, of None] obtain ids where
    ids: "collect_ids roleAssignments None = Return ids" "elems ids = first_occurrences rids"
    by (auto simp: elems_simps)
  have m: "map (the \<circ> GetRoleDefinitionId) roleAssignments = rids"
    using rids by (rule map_the_Some)
  have "set (elems ids) = set (map (the \<circ> GetRoleDefinitionId) roleAssignments)"
    by (simp only: ids(2) m set_first_occurrences)
  then have "set (elems ids) = (the \<circ> GetRoleDefinitionId) ` set roleAssignments"
    by (simp only: set_map)
  with ids m show ?thesis
    by (auto simp: distinct_first_occurrences)
qed

theorem ids_first_occurrences_witness:
  "list_all (\<lambda>a. GetRoleDefinitionId a \<noteq> None) example_assignments \<and>
   collect_ids example_assignments None = Return (Some [''t1'', ''t2''])"
proof -
  have h: "list_all (\<lambda>a. GetRoleDefinitionId a \<noteq> None) example_assignments"
    by (simp add: example_assignments_def example_assignment_def)
  from ids_first_occurrences [OF h] obtain ids where
    "collect_ids example_assignments None = Return ids"
    "elems ids = first_occurrences (map (the \<circ> GetRoleDefinitionId) example_assignments)"
    by blast
  moreover have "collect_ids example_assignments None = Return (Some [''t1'', ''t2''])"
    by (simp add: example_assignments_def example_assignment_def elems_def append_slice_def)
  ultimately show ?thesis using h by simp
qed

text \<open>
  C4, as amended. For every role definition id, when \<^verbatim>\<open>GetGraphClient\<close> succeeds and the
  fetch of the role assignments succeeds with a response in which every assignment carries
  a \<^verbatim>\<open>roleDefinitionId\<close> and a \<^verbatim>\<open>principalId\<close> (no nil pointer), \<^verbatim>\<open>getMembersFromId\<close>
  returns, in both copies and with a nil error, exactly the distinct \<^verbatim>\<open>principalId\<close> values
  of the assignments whose \<^verbatim>\<open>roleDefinitionId\<close> is the given id, each once, in order of
  first occurrence.
\<close>

theorem members_first_occurrences:
  assumes "clientResult env (clientCalls s) = None"
    and "roleAssignmentsResult env (assignmentsCalls s) = Inr assignments"
    and "assignments_wellformed assignments"
  shows "\<exists>member_ids.
           fst (getMembersFromId env rid s) = Return (member_ids, None) \<and>
           fst (getMembersFromId_part000 env rid s) = Return (member_ids, None) \<and>
           elems member_ids =
             first_occurrences (map (the \<circ> GetPrincipalId)
               (filter (\<lambda>a. GetRoleDefinitionId a = Some rid) assignments)) \<and>
           distinct (elems member_ids) \<and>
           set (elems member_ids) =
             (the \<circ> GetPrincipalId) ` {a \<in> set assignments. GetRoleDefinitionId a = Some rid}"
proof -
  from wellformed_maps [OF assms(3)] obtain rids pids where
    maps: "map GetRoleDefinitionId assignments = map Some rids"
      "map GetPrincipalId assignments = map Some pids"
    by blast
  let ?T = "map (the \<circ> GetPrincipalId) (filter (\<lambda>a. GetRoleDefinitionId a = Some rid) assignments)"
  from members_loop_acc [OF maps, of rid None] obtain ms where
    ms: "members_loop assignments rid None = Return ms" "elems ms = first_occurrences ?T"
    by (auto simp: elems_simps map_the_filter [OF maps])
  have "set (elems ms) = set ?T"
    by (simp only: ms(2) set_first_occurrences)
  then have "set (elems ms) =
      (the \<circ> GetPrincipalId) ` {a \<in> set assignments. GetRoleDefinitionId a = Some rid}"
    by (simp only: set_map set_filter)
  with getMembersFromId_fetch [OF assms(1,2) ms(1)] ms(2) show ?thesis
    by (auto simp: distinct_first_occurrences)
qed

theorem members_first_occurrences_witness:
  "fst (getMembersFromId (example_env (\<lambda>k. 1)) ''t1'' init_state) = Return (Some [''p1'', ''p3''], None) \<and>
   fst (getMembersFromId_part000 (example_env (\<lambda>k. 1)) ''t1'' init_state) =
     Return (Some [''p1'', ''p3''], None)"
proof -
  let ?env = "example_env (\<lambda>k. 1)"
  have h1: "clientResult ?env (clientCalls init_state) = None"
    by (simp add: example_env_def)
  have h2: "roleAssignmentsResult ?env (assignmentsCalls init_state) = Inr example_assignments"
    by (simp add: example_env_def)
  have h3: "assignments_wellformed example_assignments"
    by (simp add: assignments_wellformed_def example_assignments_def example_assignment_def)
  have e: "first_occurrences (map (the \<circ> GetPrincipalId)
             (filter (\<lambda>a. GetRoleDefinitionId a = Some ''t1'') example_assignments)) = [''p1'', ''p3'']"
    by (simp add: example_assignments_def example_assignment_def)
  from members_first_occurrences [OF h1 h2 h3, of "''t1''"] e obtain member_ids where
    m: "fst (getMembersFromId ?env ''t1'' init_state) = Return (member_ids, None)"
      "fst (getMembersFromId_part000 ?env ''t1'' init_state) = Return (member_ids, None)"
      "elems member_ids = [''p1'', ''p3'']"
    by auto
  from m(3) have "member_ids = Some [''p1'', ''p3'']"
    by (cases member_ids) (simp_all add: elems_def)
  with m(1,2) show ?thesis by simp
qed

text \<open>
  Without the condition on the response the property fails: the loop dereferences both
  pointers of every assignment before it compares the \<^verbatim>\<open>roleDefinitionId\<close> with the given
  id. For the id \<open>t1\<close> the only assignment with that \<^verbatim>\<open>roleDefinitionId\<close> is the one to
  \<open>p1\<close>, yet both copies panic on the assignment of \<open>t2\<close>, which has no
  \<^verbatim>\<open>principalId\<close>, and return nothing.
\<close>

theorem members_first_occurrences_counterexample:
  "clientResult nil_principal_env (clientCalls init_state) = None \<and>
   roleAssignmentsResult nil_principal_env (assignmentsCalls init_state) =
     Inr nil_principal_assignments \<and>
   map GetPrincipalId
     (filter (\<lambda>a. GetRoleDefinitionId a = Some ''t1'') nil_principal_assignments) = [Some ''p1''] \<and>
   fst (getMembersFromId nil_principal_env ''t1'' init_state) = Panic \<and>
   fst (getMembersFromId_part000 nil_principal_env ''t1'' init_state) = Panic"
  by (simp add: getMembersFromId_def getMembersFromId_part000_def nil_principal_env_def
      nil_principal_assignments_def example_assignment_def init_state_def GetGraphClient_def
      RoleAssignmentsGet_def elems_def append_slice_def)

text \<open>
  C5. The transforms are to return a value for every hydrate item, also when a pointer of
  the role definition is nil. They do not: for the role \<open>a\<close> of the example tenant, which
  \<^verbatim>\<open>getAdCustomRole\<close> returns and which has no display name, \<^verbatim>\<open>getRoleDisplayName\<close> panics,
  while \<^verbatim>\<open>getCustomRoleTitle\<close> falls back to the id and \<^verbatim>\<open>getRoleDescripsion\<close> to a default
  text; \<^verbatim>\<open>getRoleId\<close> and \<^verbatim>\<open>getRoleTemplateId\<close> panic on a nil id and a nil template id.
\<close>

theorem transforms_panic_on_nil_pointer:
  "getRoleDisplayName (example_item (example_role ''a'' ''t1'' False)) = Panic \<and>
   getCustomRoleTitle (example_item (example_role ''a'' ''t1'' False)) =
     Return (StringPtr (Some ''a''), None) \<and>
   getRoleDescripsion (example_item (example_role ''a'' ''t1'' False)) =
     Return (StringValue ''No Description'', None) \<and>
   getRoleId (example_item ((example_role ''a'' ''t1'' False)\<lparr>GetId := None\<rparr>)) = Panic \<and>
   getRoleTemplateId (example_item ((example_role ''a'' ''t1'' False)\<lparr>GetTemplateId := None\<rparr>)) =
     Panic \<and>
   fst (getAdCustomRole (example_env (\<lambda>k. 1)) (id_query ''a'') init_state) =
     Return (Some \<lparr>role = example_role ''a'' ''t1'' False, members = None\<rparr>, None)"
  by (simp add: getRoleDisplayName_def getCustomRoleTitle_def getRoleDescripsion_def getRoleId_def
      getRoleTemplateId_def assert_RoleDefinition_def example_item_def getAdCustomRole_def
      getMembersFromId_def ex_defs op_defs id_query_def GetStringValue_def)

text \<open>
  C6. The \<^verbatim>\<open>Get\<close> operation's ignore configuration classifies an error as ignorable exactly
  when its code is \<^verbatim>\<open>Request_ResourceNotFound\<close> or \<^verbatim>\<open>Invalid object identifier\<close>.
\<close>

theorem ignore_config_codes:
  "ShouldIgnoreErrorFunc tableAzureAdCustomRole_Get err =
     (Code err = ''Request_ResourceNotFound'' \<or> Code err = ''Invalid object identifier'')"
  by (auto simp: tableAzureAdCustomRole_Get_def isIgnorableErrorPredicate_def)

text \<open>
  C7. For every role definition, \<^verbatim>\<open>getRolePermissions\<close> returns a non-nil list with one map
  per role permission, in order, and a nil error; each map has exactly the keys
  \<^verbatim>\<open>AllowedResourceActions\<close>, \<^verbatim>\<open>ExcludedResourceActions\<close> and \<^verbatim>\<open>condition\<close>, and a nil slice
  of allowed or excluded actions is stored as the empty list.
\<close>

theorem getRolePermissions_maps:
  "getRolePermissions (RoleDefinitionPtr (Some data)) =
     Return (MapSlice (Some (map permission_mapping (elems (GetRolePermissions (role data))))), None) \<and>
   dom (permission_mapping per) = {''AllowedResourceActions'', ''ExcludedResourceActions'', ''condition''} \<and>
   permission_mapping per ''AllowedResourceActions'' =
     Some (StringSliceValue (Some (elems (GetAllowedResourceActions per)))) \<and>
   permission_mapping per ''ExcludedResourceActions'' =
     Some (StringSliceValue (Some (elems (GetExcludedResourceActions per)))) \<and>
   permission_mapping per ''condition'' = Some (StringPtrValue (GetCondition per))"
proof -
  have "getRolePermissions (RoleDefinitionPtr (Some data)) =
     Return (MapSlice (Some (map permission_mapping (elems (GetRolePermissions (role data))))), None)"
    by (simp add: getRolePermissions_def assert_RoleDefinition_def permissions_loop_map)
  moreover have "dom (permission_mapping per) =
      {''AllowedResourceActions'', ''ExcludedResourceActions'', ''condition''}"
    by (auto simp: permission_mapping_def Let_def split: if_splits)
  moreover have "permission_mapping per ''AllowedResourceActions'' =
     Some (StringSliceValue (Some (elems (GetAllowedResourceActions per))))"
    by (cases "GetAllowedResourceActions per") (simp_all add: permission_mapping_def elems_def Let_def)
  moreover have "permission_mapping per ''ExcludedResourceActions'' =
     Some (StringSliceValue (Some (elems (GetExcludedResourceActions per))))"
    by (cases "GetExcludedResourceActions per") (simp_all add: permission_mapping_def elems_def Let_def)
  moreover have "permission_mapping per ''condition'' = Some (StringPtrValue (GetCondition per))"
    by (simp add: permission_mapping_def Let_def)
  ultimately show ?thesis by blast
qed

text \<open>
  C8. The two copies are to return the same results and fail in the same cases. They do
  not when a fetch of the role assignments inside \<^verbatim>\<open>getMembersFromId\<close> fails: the copy in
  \<^verbatim>\<open>src/azuread\<close> panics where \<^verbatim>\<open>src/unnamed/part_000\<close> returns an error, in
  \<^verbatim>\<open>getMembersFromId\<close>, in \<^verbatim>\<open>getAdCustomRole\<close> and in \<^verbatim>\<open>listAdCustomRoles\<close>.
\<close>

theorem copies_differ_on_failed_fetch:
  "fst (getMembersFromId (failing_env 0) ''t1'' init_state) = Panic \<and>
   fst (getMembersFromId_part000 (failing_env 0) ''t1'' init_state) =
     Return (None, Some (Error ''ServiceUnavailable'' ''request error: try again'')) \<and>
   fst (getAdCustomRole (failing_env 0) (id_query ''a'') init_state) = Panic \<and>
   fst (getAdCustomRole_part000 (failing_env 0) (id_query ''a'') init_state) =
     Return (None, Some (Error ''ServiceUnavailable'' ''request error: request error: try again'')) \<and>
   fst (listAdCustomRoles (failing_env 1) init_state) = Panic \<and>
   fst (listAdCustomRoles_part000 (failing_env 1) init_state) =
     Return (None, Some (Error ''ServiceUnavailable'' ''request error: request error: try again''))"
  by (simp add: getMembersFromId_def getMembersFromId_part000_def getAdCustomRole_def
      getAdCustomRole_part000_def listAdCustomRoles_def listAdCustomRoles_part000_def
      fail_defs op_defs)

text \<open>
  C9. For every query whose equals-qual on the column \<^verbatim>\<open>id\<close> is the empty string,
  \<^verbatim>\<open>getAdCustomRole\<close> returns \<^verbatim>\<open>(nil, nil)\<close> and leaves the state as it was: no client is
  constructed, no call is made and nothing is logged.
\<close>

theorem getAdCustomRole_empty_id:
  assumes "GetStringValue (EqualsQuals d ''id'') = []"
  shows "getAdCustomRole env d s = (Return (None, None), s) \<and>
         getAdCustomRole_part000 env d s = (Return (None, None), s)"
  using assms by (simp add: getAdCustomRole_def getAdCustomRole_part000_def)

theorem getAdCustomRole_empty_id_witness:
  "GetStringValue (EqualsQuals (id_query []) ''id'') = [] \<and>
   getAdCustomRole (failing_env 0) (id_query []) init_state = (Return (None, None), init_state) \<and>
   getAdCustomRole_part000 (failing_env 0) (id_query []) init_state =
     (Return (None, None), init_state)"
proof -
  have h: "GetStringValue (EqualsQuals (id_query []) ''id'') = []"
    by (simp add: id_query_def GetStringValue_def)
  show ?thesis
    using h getAdCustomRole_empty_id [OF h, of "failing_env 0" init_state] by simp
qed



end
